theory Spec2Isabelle
  imports Complex_Main "HOL-Library.Word"
begin

section \<open>The MXNet push/pull operator of BytePS (byteps/mxnet/ops.cc)\<close>

text \<open>
  The file under verification is the MXNet front end of BytePS: a naming utility
  (\<open>GetOpName\<close>), the bridge from a \<open>Status\<close> to the engine's completion callback
  (\<open>InvokeCompleteCallback\<close>), the three stage bodies (\<open>DoInit\<close>, \<open>DoFirstStage\<close>,
  \<open>DoSecondStage\<close>) and the entry point \<open>byteps_mxnet_push_pull_async\<close>, which submits
  the stages to the MXNet engine. Everything the file calls but does not define (the
  common layer, the tensor utilities, the engine, the worker count) is a parameter of the
  model, collected in the record \<open>env\<close>.
\<close>

subsection \<open>Statuses, errors and exceptions\<close>

text \<open>
  Modelled from the spec: the class \<open>Status\<close> of the common layer is declared outside
  ops.cc. The spec gives it two shapes, \<open>Ok\<close> and \<open>Error(reason)\<close>; \<open>ok\<close> and \<open>reason\<close>
  are its two accessors used by ops.cc.
\<close>

datatype Status = Ok | Error string

fun ok :: "Status \<Rightarrow> bool" where
  "ok Ok = True"
| "ok (Error r) = False"

fun reason :: "Status \<Rightarrow> string" where
  "reason Ok = []"
| "reason (Error r) = r"

text \<open>\<open>dmlc::Error(msg)\<close>, the payload handed to an engine callback.\<close>

datatype dmlc_Error = dmlc_Error string

fun what :: "dmlc_Error \<Rightarrow> string" where
  "what (dmlc_Error m) = m"

text \<open>
  The two ways a stage body leaves without returning: \<open>ThrowIfError\<close> throws on a
  status that is not ok, and \<open>BPS_CHECK\<close> stops the process with a fatal log message.
\<close>

datatype exn = Thrown string | CheckFailed string

text \<open>
  Modelled from the spec: \<open>ThrowIfError\<close> is declared in adapter.h, outside ops.cc. It
  returns on an ok status and throws an exception carrying the reason otherwise.
\<close>

definition ThrowIfError :: "Status \<Rightarrow> exn option" where
  "ThrowIfError status = (if ok status then None else Some (Thrown (reason status)))"

subsection \<open>The naming utility\<close>

text \<open>
  \<open>std::to_string(int)\<close>: the decimal digits, with a leading minus sign for a negative
  value.
\<close>

definition digit_char :: "nat \<Rightarrow> char" where
  "digit_char d = ''0123456789'' ! (d mod 10)"

function dec_digits :: "nat \<Rightarrow> string" where
  "dec_digits n = (if n < 10 then [digit_char n] else dec_digits (n div 10) @ [digit_char (n mod 10)])"
  by pat_completeness auto
termination
  by (relation "measure id") auto

declare dec_digits.simps [simp del]

definition to_string :: "int \<Rightarrow> string" where
  "to_string i = (if i < 0 then CHR ''-'' # dec_digits (nat (- i)) else dec_digits (nat i))"

text \<open>Reading a string of decimal digits back, to tell two such strings apart.\<close>

definition digit_value :: "char \<Rightarrow> nat" where
  "digit_value c = length (takeWhile (\<lambda>d. d \<noteq> c) ''0123456789'')"

definition decimal_value :: "string \<Rightarrow> nat" where
  "decimal_value s = foldl (\<lambda>acc c. 10 * acc + digit_value c) 0 s"

text \<open>
  \<open>std::atomic_int op_count\<close> is a 32-bit signed counter in static storage, hence zero
  when the process starts. \<open>fetch_add\<close> adds with two's complement wrap-around and
  returns the old value; the implicit conversion of \<open>op_count\<close> to \<open>int\<close> is a separate
  atomic load.
\<close>

type_synonym atomic_int = "32 word"

definition initial_op_count :: atomic_int where
  "initial_op_count = 0"

definition fetch_add :: "32 word \<Rightarrow> atomic_int \<Rightarrow> 32 word \<times> atomic_int" where
  "fetch_add arg c = (c, c + arg)"

definition load :: "atomic_int \<Rightarrow> int" where
  "load c = sint c"

text \<open>
  \<open>GetOpName(prefix, name)\<close>: \<open>name\<close> is a \<open>char*\<close> that may be null (\<open>None\<close>). The
  function threads the counter: it returns the name and the counter after the call.
\<close>

definition GetOpName :: "string \<Rightarrow> string option \<Rightarrow> atomic_int \<Rightarrow> string \<times> atomic_int" where
  "GetOpName prefix name op_count =
     (case name of
        Some n \<Rightarrow> (prefix @ ''.'' @ n, op_count)
      | None \<Rightarrow>
          (let op_count1 = snd (fetch_add 1 op_count)
           in (prefix @ ''.noname.'' @ to_string (load op_count1), op_count1)))"

text \<open>The counter after \<open>n\<close> anonymous requests, one after the other.\<close>

primrec anonymous_requests :: "nat \<Rightarrow> atomic_int \<Rightarrow> atomic_int" where
  "anonymous_requests 0 c = c"
| "anonymous_requests (Suc n) c = snd (GetOpName ''byteps'' None (anonymous_requests n c))"

text \<open>
  Two or more threads inside \<open>GetOpName\<close> with a null name. Each thread performs two
  atomic actions on the shared counter, the \<open>fetch_add\<close> of line 39 and the load of
  line 40; a schedule lists the threads in the order in which they take their next
  action.
\<close>

datatype pc = AtFetchAdd | AtLoad | Returned string

definition thread_step :: "string \<Rightarrow> nat \<Rightarrow> atomic_int \<times> pc list \<Rightarrow> atomic_int \<times> pc list" where
  "thread_step prefix i st =
     (let c = fst st; ts = snd st in
      if i < length ts then
        (case ts ! i of
           AtFetchAdd \<Rightarrow> (snd (fetch_add 1 c), ts[i := AtLoad])
         | AtLoad \<Rightarrow> (c, ts[i := Returned (prefix @ ''.noname.'' @ to_string (load c))])
         | Returned n \<Rightarrow> (c, ts))
      else (c, ts))"

primrec run_schedule :: "string \<Rightarrow> nat list \<Rightarrow> atomic_int \<times> pc list \<Rightarrow> atomic_int \<times> pc list" where
  "run_schedule prefix [] st = st"
| "run_schedule prefix (i # sched) st = run_schedule prefix sched (thread_step prefix i st)"

subsection \<open>The completion bridge\<close>

text \<open>
  The engine's \<open>Callback on_complete\<close> is called either with no argument or with a
  pointer to a \<open>dmlc::Error\<close>; a call changes the state of the world it lives in.
\<close>

type_synonym 'w Callback = "dmlc_Error option \<Rightarrow> 'w \<Rightarrow> 'w"

definition InvokeCompleteCallback :: "'w Callback \<Rightarrow> Status \<Rightarrow> 'w \<Rightarrow> 'w" where
  "InvokeCompleteCallback on_complete status =
     (if ok status then on_complete None
      else (let error = dmlc_Error (reason status) in on_complete (Some error)))"

text \<open>A callback that only records, in order, the arguments it is called with.\<close>

definition record_call :: "(dmlc_Error option list) Callback" where
  "record_call arg calls = calls @ [arg]"

subsection \<open>Tensors, contexts and the world the stages act on\<close>

text \<open>
  An \<open>NDArray*\<close> is an address. ops.cc dereferences the handle it is given without
  testing it (lines 115 to 117), so the model has no null handle: a null handle is
  undefined behaviour in the source and nothing is stated about it. An element of a
  tensor is a real number, or a value that is not finite (an infinity or a NaN): the
  properties below depend on whether the division of line 154 is applied, not on its
  rounding. Dividing by zero leaves no finite value.
\<close>

datatype elem = Finite real | NonFinite

fun div_elem :: "elem \<Rightarrow> int \<Rightarrow> elem" where
  "div_elem (Finite x) n = (if n = 0 then NonFinite else Finite (x / real_of_int n))"
| "div_elem NonFinite n = NonFinite"

type_synonym NDArray_ptr = nat
type_synonym VarHandle = nat
type_synonym Context = int
type_synonym context_ref = nat

text \<open>\<open>BPSContext\<close>: ops.cc reads one field, the staging buffer \<open>cpubuff\<close> (a pointer).\<close>

record BPSContext =
  cpubuff :: "nat option"

text \<open>
  The state of the common layer. \<open>contexts\<close> is the registry's store, addressed by the
  references \<open>GetContextFromName\<close> hands out; \<open>requests\<close> lists the calls that reached
  \<open>InitTensor\<close>, \<open>EnqueueTensorPush\<close> and \<open>EnqueueTensorPull\<close>.
\<close>

datatype QueueType = INIT | PUSH | BROADCAST

record request =
  req_queue :: QueueType
  req_context :: context_ref
  req_input :: NDArray_ptr
  req_output :: "NDArray_ptr option"
  req_name :: string
  req_device :: int
  req_priority :: int
  req_version :: int

record common_state =
  contexts :: "context_ref \<Rightarrow> BPSContext"
  requests :: "request list"

text \<open>
  The closures that ops.cc builds, by what they capture: \<open>init_async_fn\<close> captures
  \<open>[&context, tensor, tensor_name]\<close>, the other two also \<open>version\<close> and \<open>priority\<close>.
\<close>

datatype AsyncFn =
    init_async_fn context_ref NDArray_ptr string
  | first_stage_async_fn context_ref NDArray_ptr string int int
  | second_stage_async_fn context_ref NDArray_ptr string int int

datatype FnProperty = kNormal

text \<open>
  One call of \<open>Engine::PushAsync(exec_fun, exec_ctx, const_vars, mutable_vars, prop,
  priority, opr_name)\<close>: \<open>const_vars\<close> are the variables the operation reads,
  \<open>mutable_vars\<close> the ones it writes.
\<close>

record opr =
  exec_fun :: AsyncFn
  exec_ctx :: Context
  const_vars :: "VarHandle list"
  mutable_vars :: "VarHandle list"
  fn_prop :: FnProperty
  priority :: int
  opr_name :: string

record world =
  op_count :: atomic_int
  engine_queue :: "opr list"
  tensor_data :: "NDArray_ptr \<Rightarrow> elem list"
  scalings :: "(NDArray_ptr \<times> int) list"
  completions :: "(nat \<times> dmlc_Error option) list"
  common :: common_state

text \<open>
  Everything ops.cc calls and does not define. The three operations of the common layer
  that take a callback may call it, at once or later, any number of times: each is a
  function from the callback and the world to the status it returns and the world once
  it is done.
\<close>

record env =
  CPU_DEVICE_ID :: int
  GetSize :: "NDArray_ptr \<Rightarrow> nat"
  GetDevice :: "NDArray_ptr \<Rightarrow> int"
  GetDType :: "NDArray_ptr \<Rightarrow> int"
  var :: "NDArray_ptr \<Rightarrow> VarHandle"
  ctx :: "NDArray_ptr \<Rightarrow> Context"
  NumWorkers :: int
  CheckInitialized :: "common_state \<Rightarrow> Status"
  IsTensorInitialized :: "string \<Rightarrow> nat \<Rightarrow> int \<Rightarrow> int \<Rightarrow> common_state \<Rightarrow> bool \<times> common_state"
  GetContextFromName :: "string \<Rightarrow> common_state \<Rightarrow> context_ref \<times> common_state"
  InitTensor :: "context_ref \<Rightarrow> NDArray_ptr \<Rightarrow> NDArray_ptr option \<Rightarrow> string \<Rightarrow> int \<Rightarrow>
     (Status \<Rightarrow> world \<Rightarrow> world) \<Rightarrow> world \<Rightarrow> Status \<times> world"
  EnqueueTensorPush :: "context_ref \<Rightarrow> NDArray_ptr \<Rightarrow> NDArray_ptr option \<Rightarrow> string \<Rightarrow> int \<Rightarrow> int \<Rightarrow> int \<Rightarrow>
     (Status \<Rightarrow> world \<Rightarrow> world) \<Rightarrow> QueueType \<Rightarrow> world \<Rightarrow> Status \<times> world"
  EnqueueTensorPull :: "context_ref \<Rightarrow> NDArray_ptr \<Rightarrow> NDArray_ptr option \<Rightarrow> string \<Rightarrow> int \<Rightarrow> int \<Rightarrow> int \<Rightarrow>
     (Status \<Rightarrow> world \<Rightarrow> world) \<Rightarrow> QueueType \<Rightarrow> world \<Rightarrow> Status \<times> world"

subsection \<open>The stage bodies\<close>

text \<open>
  A stage body returns the exception it left with, if any, and the world after it.
  \<open>BPS_CHECK(context.cpubuff)\<close> tests the pointer for null.
\<close>

definition DoInit :: "env \<Rightarrow> context_ref \<Rightarrow> NDArray_ptr \<Rightarrow> string \<Rightarrow> world Callback \<Rightarrow> world \<Rightarrow> exn option \<times> world" where
  "DoInit e context input name on_complete w =
     (case ThrowIfError (CheckInitialized e (common w)) of
        Some x \<Rightarrow> (Some x, w)
      | None \<Rightarrow>
          (let device = GetDevice e input;
               byteps_input = input;
               (init_result, w1) =
                 InitTensor e context byteps_input None name device
                   (\<lambda>status. InvokeCompleteCallback on_complete status) w
           in (ThrowIfError init_result, w1)))"

definition DoFirstStage :: "env \<Rightarrow> context_ref \<Rightarrow> NDArray_ptr \<Rightarrow> string \<Rightarrow> int \<Rightarrow> int \<Rightarrow> world Callback \<Rightarrow> world \<Rightarrow> exn option \<times> world" where
  "DoFirstStage e context input name version prio on_complete w =
     (case ThrowIfError (CheckInitialized e (common w)) of
        Some x \<Rightarrow> (Some x, w)
      | None \<Rightarrow>
          (let device = GetDevice e input;
               byteps_input = input
           in if device \<noteq> CPU_DEVICE_ID e \<and> cpubuff (contexts (common w) context) = None
              then (Some (CheckFailed (name @ '': cpu buffer not initialized.'')), w)
              else
                (let (enqueue_result, w1) =
                       EnqueueTensorPush e context byteps_input None name device prio version
                         (\<lambda>status. InvokeCompleteCallback on_complete status) PUSH w
                 in (ThrowIfError enqueue_result, w1))))"

definition DoSecondStage :: "env \<Rightarrow> context_ref \<Rightarrow> NDArray_ptr \<Rightarrow> string \<Rightarrow> int \<Rightarrow> int \<Rightarrow> world Callback \<Rightarrow> world \<Rightarrow> exn option \<times> world" where
  "DoSecondStage e context input name version prio on_complete w =
     (case ThrowIfError (CheckInitialized e (common w)) of
        Some x \<Rightarrow> (Some x, w)
      | None \<Rightarrow>
          (let device = GetDevice e input;
               byteps_input = input
           in if device \<noteq> CPU_DEVICE_ID e \<and> cpubuff (contexts (common w) context) = None
              then (Some (CheckFailed (name @ '': cpu buffer not initialized.'')), w)
              else
                (let (enqueue_result, w1) =
                       EnqueueTensorPull e context byteps_input None name device prio version
                         (\<lambda>status. InvokeCompleteCallback on_complete status) BROADCAST w
                 in (ThrowIfError enqueue_result, w1))))"

subsection \<open>The entry point\<close>

text \<open>
  Modelled from the spec: the MXNet engine is outside the repository. \<open>PushAsync\<close>
  appends the operation, with its declared dependencies, to the engine's queue.
\<close>

definition PushAsync :: "AsyncFn \<Rightarrow> Context \<Rightarrow> VarHandle list \<Rightarrow> VarHandle list \<Rightarrow> FnProperty \<Rightarrow> int \<Rightarrow> string \<Rightarrow> world \<Rightarrow> world" where
  "PushAsync f c cvars mvars p pri nm w =
     w\<lparr>engine_queue := engine_queue w @
         [\<lparr>exec_fun = f, exec_ctx = c, const_vars = cvars, mutable_vars = mvars,
           fn_prop = p, priority = pri, opr_name = nm\<rparr>]\<rparr>"

text \<open>
  Modelled from the spec: the division operator of \<open>NDArray\<close> is outside the repository.
  ops.cc calls it at line 154, in every call of the entry point, after the three
  submissions; the spec has the scaling take effect only after the callback of the pull
  stage. The model keeps the two apart. \<open>div_assign\<close> is the call of
  \<open>*tensor /= num_worker\<close>: it records the division as issued. \<open>scalings_take_effect\<close>
  is the moment the issued divisions act on the contents, every element being divided by
  the worker count; the properties say at which moment it is applied.
\<close>

definition div_assign :: "NDArray_ptr \<Rightarrow> int \<Rightarrow> world \<Rightarrow> world" where
  "div_assign tensor n w = w\<lparr>scalings := scalings w @ [(tensor, n)]\<rparr>"

definition scale :: "(NDArray_ptr \<Rightarrow> elem list) \<Rightarrow> NDArray_ptr \<times> int \<Rightarrow> (NDArray_ptr \<Rightarrow> elem list)" where
  "scale d tn = d(fst tn := map (\<lambda>x. div_elem x (snd tn)) (d (fst tn)))"

definition scalings_take_effect :: "world \<Rightarrow> world" where
  "scalings_take_effect w = w\<lparr>tensor_data := foldl scale (tensor_data w) (scalings w), scalings := []\<rparr>"

text \<open>
  \<open>byteps_mxnet_push_pull_async(tensor, name, version, priority)\<close>. The calls it makes
  into the common layer are taken to return; \<open>MX_API_END\<close> then returns 0.
\<close>

definition byteps_mxnet_push_pull_async :: "env \<Rightarrow> NDArray_ptr \<Rightarrow> string option \<Rightarrow> int \<Rightarrow> int \<Rightarrow> world \<Rightarrow> int \<times> world" where
  "byteps_mxnet_push_pull_async e tensor name version prio w0 =
     (let (tensor_name, c) = GetOpName ''byteps'' name (op_count w0);
          w1 = w0\<lparr>op_count := c\<rparr>;
          size = GetSize e tensor;
          device = GetDevice e tensor;
          dtype = GetDType e tensor;
          (is_init, cs1) = IsTensorInitialized e tensor_name size device dtype (common w1);
          w2 = w1\<lparr>common := cs1\<rparr>;
          w3 = (if \<not> is_init then
                  (let (context, cs2) = GetContextFromName e tensor_name (common w2)
                   in PushAsync (init_async_fn context tensor tensor_name) (ctx e tensor)
                        [] [var e tensor] kNormal 0 ''BytePSInit'' (w2\<lparr>common := cs2\<rparr>))
                else w2);
          (context, cs3) = GetContextFromName e tensor_name (common w3);
          w4 = w3\<lparr>common := cs3\<rparr>;
          w5 = PushAsync (first_stage_async_fn context tensor tensor_name version prio) (ctx e tensor)
                 [var e tensor] [] kNormal 0 ''BytePSFirstStage'' w4;
          w6 = PushAsync (second_stage_async_fn context tensor tensor_name version prio) (ctx e tensor)
                 [] [var e tensor] kNormal 0 ''BytePSSecondStage'' w5;
          num_worker = NumWorkers e;
          w7 = div_assign tensor num_worker w6
      in (0, w7))"

subsection \<open>Running a submitted operation\<close>

text \<open>
  The engine runs an operation by calling its closure with a completion callback of its
  own. Here the callback of the operation at position \<open>i\<close> of the queue records the
  position and the argument of every call.
\<close>

definition engine_on_complete :: "nat \<Rightarrow> world Callback" where
  "engine_on_complete i arg w = w\<lparr>completions := completions w @ [(i, arg)]\<rparr>"

fun run_fn :: "env \<Rightarrow> AsyncFn \<Rightarrow> world Callback \<Rightarrow> world \<Rightarrow> exn option \<times> world" where
  "run_fn e (init_async_fn context tensor tensor_name) on_complete w =
     DoInit e context tensor tensor_name on_complete w"
| "run_fn e (first_stage_async_fn context tensor tensor_name version prio) on_complete w =
     DoFirstStage e context tensor tensor_name version prio on_complete w"
| "run_fn e (second_stage_async_fn context tensor tensor_name version prio) on_complete w =
     DoSecondStage e context tensor tensor_name version prio on_complete w"

definition run_opr :: "env \<Rightarrow> nat \<Rightarrow> world \<Rightarrow> exn option \<times> world" where
  "run_opr e i w = run_fn e (exec_fun (engine_queue w ! i)) (engine_on_complete i) w"

text \<open>The stage a closure runs, and the tensor name it captured.\<close>

datatype stage = Initializer | PushStage | PullStage

fun stage_of :: "AsyncFn \<Rightarrow> stage" where
  "stage_of (init_async_fn context tensor tensor_name) = Initializer"
| "stage_of (first_stage_async_fn context tensor tensor_name version prio) = PushStage"
| "stage_of (second_stage_async_fn context tensor tensor_name version prio) = PullStage"

fun tensor_name_of :: "AsyncFn \<Rightarrow> string" where
  "tensor_name_of (init_async_fn context tensor tensor_name) = tensor_name"
| "tensor_name_of (first_stage_async_fn context tensor tensor_name version prio) = tensor_name"
| "tensor_name_of (second_stage_async_fn context tensor tensor_name version prio) = tensor_name"

text \<open>The operations a call of the entry point added to a queue that held \<open>n\<close>.\<close>

definition submitted :: "nat \<Rightarrow> world \<Rightarrow> opr list" where
  "submitted n w = drop n (engine_queue w)"

text \<open>
  The name a call of the entry point works under, and the answer \<open>IsTensorInitialized\<close>
  gives in that call (line 120).
\<close>

definition requested_name :: "string option \<Rightarrow> world \<Rightarrow> string" where
  "requested_name name w = fst (GetOpName ''byteps'' name (op_count w))"

definition already_initialized :: "env \<Rightarrow> NDArray_ptr \<Rightarrow> string option \<Rightarrow> world \<Rightarrow> bool" where
  "already_initialized e tensor name w =
     fst (IsTensorInitialized e (requested_name name w) (GetSize e tensor) (GetDevice e tensor)
            (GetDType e tensor) (common w))"

text \<open>What an operation declares to the engine: its stage, what it reads, what it writes.\<close>

definition declared :: "opr \<Rightarrow> stage \<times> VarHandle list \<times> VarHandle list" where
  "declared x = (stage_of (exec_fun x), const_vars x, mutable_vars x)"

subsection \<open>The contract of the host scheduler\<close>

text \<open>
  Modelled from the spec: the MXNet engine is outside the repository. The spec's contract
  for it: an operation that reads a variable waits for every operation submitted before it
  that writes the variable; an operation that writes a variable waits for every operation
  submitted before it that reads or writes the variable. An operation is \<open>Pending\<close> until
  the engine starts it, \<open>Running\<close> while its closure works, and \<open>Done\<close> once its
  completion callback has been called.
\<close>

datatype phase = Pending | Running | Done

definition conflicts :: "opr \<Rightarrow> opr \<Rightarrow> bool" where
  "conflicts a b =
     (list_ex (\<lambda>v. v \<in> set (const_vars b) \<or> v \<in> set (mutable_vars b)) (mutable_vars a)
      \<or> list_ex (\<lambda>v. v \<in> set (const_vars a)) (mutable_vars b))"

definition may_start :: "opr list \<Rightarrow> phase list \<Rightarrow> nat \<Rightarrow> bool" where
  "may_start q ph i =
     (i < length q \<and> i < length ph \<and> ph ! i = Pending
      \<and> list_all (\<lambda>j. conflicts (q ! j) (q ! i) \<longrightarrow> ph ! j = Done) [0..<i])"

datatype event = Start nat | Finish nat

fun engine_event :: "opr list \<Rightarrow> event \<Rightarrow> phase list \<Rightarrow> phase list option" where
  "engine_event q (Start i) ph = (if may_start q ph i then Some (ph[i := Running]) else None)"
| "engine_event q (Finish i) ph =
     (if i < length ph \<and> ph ! i = Running then Some (ph[i := Done]) else None)"

text \<open>A run of the engine: \<open>None\<close> when the engine's contract forbids one of the events.\<close>

fun engine_run :: "opr list \<Rightarrow> event list \<Rightarrow> phase list \<Rightarrow> phase list option" where
  "engine_run q [] ph = Some ph"
| "engine_run q (ev # evs) ph =
     (case engine_event q ev ph of None \<Rightarrow> None | Some ph1 \<Rightarrow> engine_run q evs ph1)"

subsection \<open>A concrete deployment\<close>

text \<open>
  One instance of the parameters, used to evaluate the model: two workers, a tensor of two
  elements at address 7 on device 0, the host device numbered -1, and a common layer that
  records each request and answers it through the callback with a chosen status.
\<close>

definition log_request :: "request \<Rightarrow> world \<Rightarrow> world" where
  "log_request r w = w\<lparr>common := (common w)\<lparr>requests := requests (common w) @ [r]\<rparr>\<rparr>"

definition answering :: "Status \<Rightarrow> Status \<Rightarrow> context_ref \<Rightarrow> NDArray_ptr \<Rightarrow> NDArray_ptr option \<Rightarrow> string \<Rightarrow> int \<Rightarrow> int \<Rightarrow> int \<Rightarrow>
     (Status \<Rightarrow> world \<Rightarrow> world) \<Rightarrow> QueueType \<Rightarrow> world \<Rightarrow> Status \<times> world" where
  "answering returned reported context input output name device prio version callback queue w =
     (returned,
      callback reported
        (log_request \<lparr>req_queue = queue, req_context = context, req_input = input,
           req_output = output, req_name = name, req_device = device,
           req_priority = prio, req_version = version\<rparr> w))"

text \<open>A common layer that refuses a request: it returns a status and never calls back.\<close>

definition refusing :: "Status \<Rightarrow> context_ref \<Rightarrow> NDArray_ptr \<Rightarrow> NDArray_ptr option \<Rightarrow> string \<Rightarrow> int \<Rightarrow> int \<Rightarrow> int \<Rightarrow>
     (Status \<Rightarrow> world \<Rightarrow> world) \<Rightarrow> QueueType \<Rightarrow> world \<Rightarrow> Status \<times> world" where
  "refusing returned context input output name device prio version callback queue w =
     (returned,
      log_request \<lparr>req_queue = queue, req_context = context, req_input = input,
         req_output = output, req_name = name, req_device = device,
         req_priority = prio, req_version = version\<rparr> w)"

definition allocating :: "context_ref \<Rightarrow> NDArray_ptr \<Rightarrow> NDArray_ptr option \<Rightarrow> string \<Rightarrow> int \<Rightarrow>
     (Status \<Rightarrow> world \<Rightarrow> world) \<Rightarrow> world \<Rightarrow> Status \<times> world" where
  "allocating context input output name device callback w =
     (let w1 = log_request \<lparr>req_queue = INIT, req_context = context, req_input = input,
                 req_output = output, req_name = name, req_device = device,
                 req_priority = 0, req_version = 0\<rparr> w;
          w2 = w1\<lparr>common := (common w1)\<lparr>contexts :=
                 (contexts (common w1))(context := \<lparr>cpubuff = Some 4096\<rparr>)\<rparr>\<rparr>
      in (Ok, callback Ok w2))"

definition deployment :: "Status \<Rightarrow> bool \<Rightarrow> Status \<Rightarrow> env" where
  "deployment runtime registered push_report =
     \<lparr>CPU_DEVICE_ID = - 1,
      GetSize = (\<lambda>t. 2),
      GetDevice = (\<lambda>t. 0),
      GetDType = (\<lambda>t. 0),
      var = (\<lambda>t. t),
      ctx = (\<lambda>t. 0),
      NumWorkers = 2,
      CheckInitialized = (\<lambda>cs. runtime),
      IsTensorInitialized = (\<lambda>name size device dtype cs. (registered, cs)),
      GetContextFromName = (\<lambda>name cs. (length name, cs)),
      InitTensor = allocating,
      EnqueueTensorPush = answering Ok push_report,
      EnqueueTensorPull = answering Ok Ok\<rparr>"

definition staged :: "bool \<Rightarrow> world" where
  "staged has_buffer =
     \<lparr>op_count = initial_op_count,
      engine_queue = [],
      tensor_data = (\<lambda>t. [])(7 := [Finite 2, Finite 4]),
      scalings = [],
      completions = [],
      common = \<lparr>contexts = (\<lambda>c. \<lparr>cpubuff = (if has_buffer then Some 4096 else None)\<rparr>),
                requests = []\<rparr>\<rparr>"

section \<open>Properties\<close>

lemma dec_digits_small: "n < 10 \<Longrightarrow> dec_digits n = [digit_char n]"
  by (simp add: dec_digits.simps)

lemma GetOpName_None:
  "GetOpName p None c = (p @ ''.noname.'' @ to_string (sint (c + 1)), c + 1)"
  by (simp add: GetOpName_def fetch_add_def load_def Let_def)

lemma GetOpName_Some: "GetOpName p (Some n) c = (p @ ''.'' @ n, c)"
  by (simp add: GetOpName_def)

lemma anonymous_requests_add: "anonymous_requests n c = c + of_nat n"
  by (induction n) (simp_all add: GetOpName_None)

lemma entry_old_queue:
  "take (length (engine_queue w))
     (engine_queue (snd (byteps_mxnet_push_pull_async e tensor name version prio w)))
   = engine_queue w"
  by (simp add: byteps_mxnet_push_pull_async_def PushAsync_def div_assign_def Let_def
      split: prod.splits)

lemma entry_submitted:
  "map declared (submitted (length (engine_queue w))
       (snd (byteps_mxnet_push_pull_async e tensor name version prio w)))
   = (if already_initialized e tensor name w then [] else [(Initializer, [], [var e tensor])])
     @ [(PushStage, [var e tensor], []), (PullStage, [], [var e tensor])]"
  by (simp add: byteps_mxnet_push_pull_async_def PushAsync_def div_assign_def Let_def
      submitted_def already_initialized_def requested_name_def declared_def split: prod.splits)

lemma entry_tensor_data:
  "tensor_data (snd (byteps_mxnet_push_pull_async e tensor name version prio w)) = tensor_data w"
  by (simp add: byteps_mxnet_push_pull_async_def PushAsync_def div_assign_def Let_def
      split: prod.splits)

lemma entry_scalings:
  "scalings (snd (byteps_mxnet_push_pull_async e tensor name version prio w))
   = scalings w @ [(tensor, NumWorkers e)]"
  by (simp add: byteps_mxnet_push_pull_async_def PushAsync_def div_assign_def Let_def
      split: prod.splits)

subsection \<open>The naming utility\<close>

lemma sint_succ:
  fixes c :: "32 word"
  assumes "sint c < 2147483647"
  shows "sint (c + 1) = sint c + 1"
proof -
  have lo: "- (2 ^ 31) \<le> sint c" using sint_ge [of c] by simp
  have "sint (c + 1) = signed_take_bit 31 (sint c + 1)"
    by (simp add: sint_word_ariths)
  also have "\<dots> = sint c + 1"
    using lo assms by (intro signed_take_bit_int_eq_self) simp_all
  finally show ?thesis .
qed

text \<open>
  C5, as the code has it. With a user name \<open>GetOpName\<close> returns
  \<open>prefix + "." + userName\<close> and leaves the counter alone. Without one it adds one to the
  process-wide counter and returns \<open>prefix + ".noname." + N\<close>, where \<open>N\<close> is the signed
  value of the counter after the addition. The counter starts at zero. It is a 32-bit
  integer: the addition wraps around, so the counter goes up by one only while it is
  below \<open>2^31 - 1\<close>.
\<close>

theorem GetOpName_counter:
  "GetOpName prefix (Some user) c = (prefix @ ''.'' @ user, c)
   \<and> GetOpName prefix None c = (prefix @ ''.noname.'' @ to_string (sint (c + 1)), c + 1)
   \<and> initial_op_count = 0
   \<and> (sint c < 2147483647 \<longrightarrow> sint (snd (GetOpName prefix None c)) = sint c + 1)"
  by (simp add: GetOpName_Some GetOpName_None initial_op_count_def sint_succ)

theorem GetOpName_counter_witness:
  "GetOpName ''byteps'' (Some ''weight'') initial_op_count = (''byteps.weight'', 0)
   \<and> GetOpName ''byteps'' None initial_op_count = (''byteps.noname.1'', 1)
   \<and> sint (snd (GetOpName ''byteps'' None initial_op_count)) = 1"
  using GetOpName_counter [of "''byteps''" "''weight''" initial_op_count]
  by (simp add: initial_op_count_def to_string_def dec_digits_small digit_char_def)

text \<open>
  C5 as the spec states it, "the counter only ever increases", fails: after \<open>2^31 - 1\<close>
  anonymous requests the counter holds the largest 32-bit value, and the next request
  takes it to the smallest one.
\<close>

theorem GetOpName_counter_wraps:
  "sint (snd (GetOpName ''byteps'' None (anonymous_requests 2147483647 initial_op_count)))
     < sint (anonymous_requests 2147483647 initial_op_count)
   \<and> sint (snd (GetOpName ''byteps'' None (anonymous_requests 2147483647 initial_op_count)))
     = - 2147483648"
  by (simp add: anonymous_requests_add GetOpName_None initial_op_count_def)

lemma digit_value_digit_char: "d < 10 \<Longrightarrow> digit_value (digit_char d) = d"
proof -
  assume "d < 10"
  then consider "d = 0" | "d = 1" | "d = 2" | "d = 3" | "d = 4" | "d = 5" | "d = 6" | "d = 7"
    | "d = 8" | "d = 9"
    by atomize_elim arith
  then show ?thesis
    by cases (simp_all add: digit_value_def digit_char_def)
qed

lemma digit_char_not_minus: "digit_char d \<noteq> CHR ''-''"
proof -
  have "d mod 10 < 10" by simp
  then consider "d mod 10 = 0" | "d mod 10 = 1" | "d mod 10= 2" | "d mod 10= 3" | "d mod 10= 4" | "d mod 10= 5" | "d mod 10= 6" | "d mod 10= 7"
    | "d mod 10= 8" | "d mod 10= 9"
    by atomize_elim arith
  then show ?thesis
    by cases (simp_all add: digit_char_def)
qed

lemma decimal_value_snoc: "decimal_value (s @ [c]) = 10 * decimal_value s + digit_value c"
  by (simp add: decimal_value_def)

lemma decimal_value_dec_digits: "decimal_value (dec_digits n) = n"
proof (induction n rule: dec_digits.induct)
  case (1 n)
  show ?case
  proof (cases "n < 10")
    case True
    then show ?thesis
      by (simp add: dec_digits_small decimal_value_def digit_value_digit_char)
  next
    case False
    then have "dec_digits n = dec_digits (n div 10) @ [digit_char (n mod 10)]"
      by (subst dec_digits.simps) simp
    with False "1.IH" show ?thesis
      by (simp add: decimal_value_snoc digit_value_digit_char)
  qed
qed

lemma dec_digits_inj: "dec_digits a = dec_digits b \<Longrightarrow> a = b"
  by (metis decimal_value_dec_digits)

lemma dec_digits_hd: "\<exists>d ds. dec_digits n = digit_char d # ds"
proof (induction n rule: dec_digits.induct)
  case (1 n)
  show ?case
  proof (cases "n < 10")
    case True
    then show ?thesis by (auto simp add: dec_digits_small)
  next
    case False
    then have e: "dec_digits n = dec_digits (n div 10) @ [digit_char (n mod 10)]"
      by (subst dec_digits.simps) simp
    from False "1.IH" obtain d ds where "dec_digits (n div 10) = digit_char d # ds" by blast
    with e show ?thesis by auto
  qed
qed

lemma to_string_inj: "to_string a = to_string b \<Longrightarrow> a = b"
proof -
  assume eq: "to_string a = to_string b"
  obtain da dsa where ha: "dec_digits (nat b) = digit_char da # dsa" using dec_digits_hd by blast
  obtain db dsb where hb: "dec_digits (nat a) = digit_char db # dsb" using dec_digits_hd by blast
  show ?thesis
  proof (cases "a < 0")
    case True
    show ?thesis
    proof (cases "b < 0")
      case True
      with \<open>a < 0\<close> eq have "dec_digits (nat (- a)) = dec_digits (nat (- b))"
        by (simp add: to_string_def)
      then have "nat (- a) = nat (- b)" by (rule dec_digits_inj)
      with True \<open>a < 0\<close> show ?thesis by simp
    next
      case False
      with True eq ha show ?thesis
        using digit_char_not_minus [of da] by (simp add: to_string_def)
    qed
  next
    case False
    show ?thesis
    proof (cases "b < 0")
      case True
      with False eq hb show ?thesis
        using digit_char_not_minus [of db] by (simp add: to_string_def)
    next
      case False
      with \<open>\<not> a < 0\<close> eq have "dec_digits (nat a) = dec_digits (nat b)"
        by (simp add: to_string_def)
      then have "nat a = nat b" by (rule dec_digits_inj)
      with False \<open>\<not> a < 0\<close> show ?thesis by simp
    qed
  qed
qed

text \<open>
  X1. Anonymous requests made one after the other get pairwise distinct names, as long
  as fewer than \<open>2^32\<close> requests lie between them: the \<open>i\<close>-th and the \<open>j\<close>-th request
  from any counter value get different names.
\<close>

theorem sequential_names_distinct:
  assumes "i < j" and "j - i < 2 ^ 32"
  shows "fst (GetOpName p None (anonymous_requests i c))
       \<noteq> fst (GetOpName p None (anonymous_requests j c))"
proof
  assume "fst (GetOpName p None (anonymous_requests i c)) = fst (GetOpName p None (anonymous_requests j c))"
  then have "to_string (sint (c + of_nat i + 1)) = to_string (sint (c + of_nat j + 1))"
    by (simp add: GetOpName_None anonymous_requests_add)
  then have "sint (c + of_nat i + 1) = sint (c + of_nat j + 1)" by (rule to_string_inj)
  then have "c + of_nat i + 1 = c + of_nat j + 1" by (rule signed_word_eqI)
  then have "(of_nat j :: 32 word) = of_nat i" by simp
  then have "(of_nat (i + (j - i)) :: 32 word) = of_nat i" using assms(1) by simp
  then have "(of_nat (j - i) :: 32 word) = 0" by simp
  then have "2 ^ 32 dvd j - i"
    by (simp add: word_of_nat_eq_0_iff)
  with assms show False
    by (auto dest: dvd_imp_le)
qed

theorem sequential_names_distinct_witness:
  "fst (GetOpName ''byteps'' None (anonymous_requests 0 initial_op_count)) = ''byteps.noname.1''
   \<and> fst (GetOpName ''byteps'' None (anonymous_requests 1 initial_op_count)) = ''byteps.noname.2''
   \<and> fst (GetOpName ''byteps'' None (anonymous_requests 0 initial_op_count))
     \<noteq> fst (GetOpName ''byteps'' None (anonymous_requests 1 initial_op_count))"
  using sequential_names_distinct [of 0 1 "''byteps''" initial_op_count]
  by (simp add: GetOpName_None initial_op_count_def to_string_def dec_digits_small digit_char_def)

text \<open>
  X2. The bound is sharp: \<open>2^32\<close> requests later the counter has wrapped around and the
  same name is handed out again.
\<close>

theorem sequential_names_repeat:
  "fst (GetOpName p None (anonymous_requests (i + 2 ^ 32) c))
   = fst (GetOpName p None (anonymous_requests i c))"
proof -
  have "(of_nat (2 ^ 32) :: 32 word) = 0"
    by (simp add: word_of_nat_eq_0_iff)
  then have "c + of_nat (i + 2 ^ 32) = c + (of_nat i :: 32 word)"
    by (simp only: of_nat_add) simp
  then show ?thesis
    by (simp only: GetOpName_None anonymous_requests_add)
qed

text \<open>
  One thread that takes its two actions without interruption does what \<open>GetOpName\<close>
  does.
\<close>

lemma alone_is_GetOpName:
  "run_schedule p [0, 0] (c, [AtFetchAdd])
   = (snd (GetOpName p None c), [Returned (fst (GetOpName p None c))])"
  by (simp add: thread_step_def GetOpName_def Let_def)

text \<open>
  C6, at the input where the code departs from it. Two anonymous requests run
  concurrently from the initial counter; both threads add one before either of them
  reads the counter back. Both read 2, and both requests get the name
  \<open>byteps.noname.2\<close>: the value \<open>fetch_add\<close> returned, which differs between the
  threads, is dropped at line 39.
\<close>

theorem GetOpName_race:
  "run_schedule ''byteps'' [0, 1, 0, 1] (initial_op_count, [AtFetchAdd, AtFetchAdd])
   = (2, [Returned ''byteps.noname.2'', Returned ''byteps.noname.2''])"
  by (simp add: thread_step_def fetch_add_def load_def initial_op_count_def to_string_def
      dec_digits_small digit_char_def)

subsection \<open>The completion bridge\<close>

text \<open>
  C7. \<open>InvokeCompleteCallback\<close> calls the callback once: with no error argument when the
  status is ok, and with a \<open>dmlc::Error\<close> whose message is the reason of the status
  otherwise. The recording callback shows the single call.
\<close>

theorem InvokeCompleteCallback_once:
  "InvokeCompleteCallback on_complete status w
     = on_complete (if ok status then None else Some (dmlc_Error (reason status))) w
   \<and> InvokeCompleteCallback record_call Ok calls = calls @ [None]
   \<and> InvokeCompleteCallback record_call (Error r) calls = calls @ [Some (dmlc_Error r)]
   \<and> what (dmlc_Error r) = r
   \<and> length (InvokeCompleteCallback record_call status calls) = length calls + 1"
  by (simp add: InvokeCompleteCallback_def record_call_def)

subsection \<open>What the entry point submits\<close>

text \<open>
  C3. When \<open>IsTensorInitialized\<close> answers true, the operations the entry point submits
  are the push stage and then the pull stage; when it answers false, the initialization
  comes first. So the initialization is submitted exactly when the answer is false.
\<close>

theorem init_submitted_iff_not_initialized:
  "map (\<lambda>x. stage_of (exec_fun x))
     (submitted (length (engine_queue w))
        (snd (byteps_mxnet_push_pull_async e tensor name version prio w)))
   = (if already_initialized e tensor name w then [PushStage, PullStage]
      else [Initializer, PushStage, PullStage])"
proof -
  have "map (\<lambda>x. stage_of (exec_fun x))
          (submitted (length (engine_queue w))
             (snd (byteps_mxnet_push_pull_async e tensor name version prio w)))
        = map fst (map declared (submitted (length (engine_queue w))
             (snd (byteps_mxnet_push_pull_async e tensor name version prio w))))"
    by (simp add: declared_def)
  then show ?thesis
    by (simp only: entry_submitted) simp
qed

text \<open>
  C8. Among the operations one call submits there is one push stage, declared as reading
  the tensor's variable and writing nothing, and one pull stage, declared as reading
  nothing and writing the tensor's variable.
\<close>

theorem push_reads_pull_writes:
  "map (\<lambda>x. (const_vars x, mutable_vars x))
     (filter (\<lambda>x. stage_of (exec_fun x) = PushStage)
        (submitted (length (engine_queue w))
           (snd (byteps_mxnet_push_pull_async e tensor name version prio w))))
   = [([var e tensor], [])]
   \<and> map (\<lambda>x. (const_vars x, mutable_vars x))
     (filter (\<lambda>x. stage_of (exec_fun x) = PullStage)
        (submitted (length (engine_queue w))
           (snd (byteps_mxnet_push_pull_async e tensor name version prio w))))
   = [([], [var e tensor])]"
  by (simp add: byteps_mxnet_push_pull_async_def PushAsync_def div_assign_def Let_def
      submitted_def split: prod.splits)

subsection \<open>The stage bodies\<close>

lemma ThrowIfError_not_fatal: "ThrowIfError s \<noteq> Some (CheckFailed m)"
  by (simp add: ThrowIfError_def)

lemma ThrowIfError_ok: "ok s \<Longrightarrow> ThrowIfError s = None"
  by (simp add: ThrowIfError_def)

lemma ThrowIfError_error: "\<not> ok s \<Longrightarrow> ThrowIfError s = Some (Thrown (reason s))"
  by (simp add: ThrowIfError_def)

text \<open>
  C4, as the code has it. \<open>DoFirstStage\<close> first checks that the runtime is initialized
  (line 70). When it is and the tensor is not on the host: without a staging buffer the
  stage stops with the fatal check of line 76, before anything is enqueued (the world is
  unchanged); with a staging buffer the push is enqueued, the stage ends with what
  \<open>ThrowIfError\<close> makes of the result, and it never ends with the fatal check.
\<close>

theorem DoFirstStage_staging_check:
  assumes init: "ok (CheckInitialized e (common w))"
    and dev: "GetDevice e input \<noteq> CPU_DEVICE_ID e"
  shows "(cpubuff (contexts (common w) context) = None \<longrightarrow>
            DoFirstStage e context input name version prio on_complete w
              = (Some (CheckFailed (name @ '': cpu buffer not initialized.'')), w))
       \<and> (cpubuff (contexts (common w) context) \<noteq> None \<longrightarrow>
            DoFirstStage e context input name version prio on_complete w
              = (let r = EnqueueTensorPush e context input None name (GetDevice e input) prio version
                           (InvokeCompleteCallback on_complete) PUSH w
                 in (ThrowIfError (fst r), snd r))
            \<and> (\<forall>m. fst (DoFirstStage e context input name version prio on_complete w)
                   \<noteq> Some (CheckFailed m)))"
  using init dev
  by (auto simp add: DoFirstStage_def ThrowIfError_ok Let_def ThrowIfError_not_fatal split: prod.splits)

theorem DoFirstStage_staging_check_witness:
  "DoFirstStage (deployment Ok True Ok) 8 7 ''byteps.g'' 0 0 (engine_on_complete 0) (staged False)
     = (Some (CheckFailed ''byteps.g: cpu buffer not initialized.''), staged False)
   \<and> fst (DoFirstStage (deployment Ok True Ok) 8 7 ''byteps.g'' 0 0 (engine_on_complete 0) (staged True)) = None
   \<and> requests (common (snd (DoFirstStage (deployment Ok True Ok) 8 7 ''byteps.g'' 0 0 (engine_on_complete 0) (staged True))))
     = [\<lparr>req_queue = PUSH, req_context = 8, req_input = 7, req_output = None, req_name = ''byteps.g'',
         req_device = 0, req_priority = 0, req_version = 0\<rparr>]"
  using DoFirstStage_staging_check [of "deployment Ok True Ok" "staged False" 7 8 "''byteps.g''" 0 0 "engine_on_complete 0"]
    DoFirstStage_staging_check [of "deployment Ok True Ok" "staged True" 7 8 "''byteps.g''" 0 0 "engine_on_complete 0"]
  by (simp add: deployment_def staged_def answering_def log_request_def InvokeCompleteCallback_def
      engine_on_complete_def ThrowIfError_def Let_def)

text \<open>
  C4 as the spec states it, for every execution on a device other than the host, fails
  where the runtime is not initialized: without a staging buffer the stage ends with the
  exception of \<open>ThrowIfError\<close> and not with the fatal check, and with a staging buffer
  nothing is enqueued.
\<close>

theorem DoFirstStage_uninitialized_runtime:
  "GetDevice (deployment (Error ''BytePS has not been initialized'') True Ok) 7
     \<noteq> CPU_DEVICE_ID (deployment (Error ''BytePS has not been initialized'') True Ok)
   \<and> cpubuff (contexts (common (staged False)) 8) = None
   \<and> DoFirstStage (deployment (Error ''BytePS has not been initialized'') True Ok) 8 7 ''byteps.g'' 0 0
        (engine_on_complete 0) (staged False)
      = (Some (Thrown ''BytePS has not been initialized''), staged False)
   \<and> cpubuff (contexts (common (staged True)) 8) = Some 4096
   \<and> DoFirstStage (deployment (Error ''BytePS has not been initialized'') True Ok) 8 7 ''byteps.g'' 0 0
        (engine_on_complete 0) (staged True)
      = (Some (Thrown ''BytePS has not been initialized''), staged True)
   \<and> requests (common (staged True)) = []"
  by (simp add: DoFirstStage_def deployment_def staged_def ThrowIfError_def)

text \<open>
  C10, as the code has it. \<open>DoSecondStage\<close> makes the same two checks in the same
  order. When the runtime is initialized and the tensor is not on the host: without a
  staging buffer the stage stops with the fatal check of line 96 before the pull is
  enqueued, exactly as the push stage does on the same input; with a staging buffer the
  pull is enqueued.
\<close>

theorem DoSecondStage_staging_check:
  assumes init: "ok (CheckInitialized e (common w))"
    and dev: "GetDevice e input \<noteq> CPU_DEVICE_ID e"
  shows "(cpubuff (contexts (common w) context) = None \<longrightarrow>
            DoSecondStage e context input name version prio on_complete w
              = (Some (CheckFailed (name @ '': cpu buffer not initialized.'')), w)
            \<and> fst (DoSecondStage e context input name version prio on_complete w)
              = fst (DoFirstStage e context input name version prio on_complete w))
       \<and> (cpubuff (contexts (common w) context) \<noteq> None \<longrightarrow>
            DoSecondStage e context input name version prio on_complete w
              = (let r = EnqueueTensorPull e context input None name (GetDevice e input) prio version
                           (InvokeCompleteCallback on_complete) BROADCAST w
                 in (ThrowIfError (fst r), snd r)))"
  using init dev
  by (auto simp add: DoSecondStage_def DoFirstStage_def ThrowIfError_ok Let_def split: prod.splits)

theorem DoSecondStage_staging_check_witness:
  "DoSecondStage (deployment Ok True Ok) 8 7 ''byteps.g'' 0 0 (engine_on_complete 1) (staged False)
     = (Some (CheckFailed ''byteps.g: cpu buffer not initialized.''), staged False)
   \<and> fst (DoSecondStage (deployment Ok True Ok) 8 7 ''byteps.g'' 0 0 (engine_on_complete 1) (staged True)) = None
   \<and> requests (common (snd (DoSecondStage (deployment Ok True Ok) 8 7 ''byteps.g'' 0 0 (engine_on_complete 1) (staged True))))
     = [\<lparr>req_queue = BROADCAST, req_context = 8, req_input = 7, req_output = None, req_name = ''byteps.g'',
         req_device = 0, req_priority = 0, req_version = 0\<rparr>]"
  using DoSecondStage_staging_check [of "deployment Ok True Ok" "staged False" 7 8 "''byteps.g''" 0 0 "engine_on_complete 1"]
    DoSecondStage_staging_check [of "deployment Ok True Ok" "staged True" 7 8 "''byteps.g''" 0 0 "engine_on_complete 1"]
  by (simp add: deployment_def staged_def answering_def log_request_def InvokeCompleteCallback_def
      engine_on_complete_def ThrowIfError_def Let_def)

text \<open>
  C10 as stated, for every execution on a device other than the host, fails where the
  runtime is not initialized: the stage ends with the exception of \<open>ThrowIfError\<close>, not
  with the fatal check.
\<close>

theorem DoSecondStage_uninitialized_runtime:
  "GetDevice (deployment (Error ''BytePS has not been initialized'') True Ok) 7
     \<noteq> CPU_DEVICE_ID (deployment (Error ''BytePS has not been initialized'') True Ok)
   \<and> cpubuff (contexts (common (staged False)) 8) = None
   \<and> DoSecondStage (deployment (Error ''BytePS has not been initialized'') True Ok) 8 7 ''byteps.g'' 0 0
        (engine_on_complete 1) (staged False)
      = (Some (Thrown ''BytePS has not been initialized''), staged False)"
  by (simp add: DoSecondStage_def deployment_def staged_def ThrowIfError_def)

text \<open>
  C2, as the code has it. The entry point does not look at the runtime: whatever
  \<open>CheckInitialized\<close> would answer, it returns the same result, and it submits two
  operations when the tensor is initialized and three otherwise. The check is made at
  the start of each stage body, when the engine runs it: with a runtime that is not
  initialized each of the three bodies throws the reason of \<open>CheckInitialized\<close> and
  leaves the world as it was (no call into the common layer, no call of the completion
  callback).
\<close>

theorem runtime_checked_inside_stages:
  "byteps_mxnet_push_pull_async (e\<lparr>CheckInitialized := chk\<rparr>) tensor name version prio w
     = byteps_mxnet_push_pull_async e tensor name version prio w
   \<and> length (submitted (length (engine_queue w))
        (snd (byteps_mxnet_push_pull_async e tensor name version prio w)))
     = (if already_initialized e tensor name w then 2 else 3)
   \<and> (\<not> ok (CheckInitialized e (common ws)) \<longrightarrow>
        DoInit e cref tensor tname on_complete ws
          = (Some (Thrown (reason (CheckInitialized e (common ws)))), ws)
        \<and> DoFirstStage e cref tensor tname version prio on_complete ws
          = (Some (Thrown (reason (CheckInitialized e (common ws)))), ws)
        \<and> DoSecondStage e cref tensor tname version prio on_complete ws
          = (Some (Thrown (reason (CheckInitialized e (common ws)))), ws))"
proof (intro conjI impI)
  show "byteps_mxnet_push_pull_async (e\<lparr>CheckInitialized := chk\<rparr>) tensor name version prio w
     = byteps_mxnet_push_pull_async e tensor name version prio w"
    by (simp add: byteps_mxnet_push_pull_async_def Let_def split: prod.splits)
  have "length (map declared (submitted (length (engine_queue w))
        (snd (byteps_mxnet_push_pull_async e tensor name version prio w))))
     = (if already_initialized e tensor name w then 2 else 3)"
    by (simp only: entry_submitted) simp
  then show "length (submitted (length (engine_queue w))
        (snd (byteps_mxnet_push_pull_async e tensor name version prio w)))
     = (if already_initialized e tensor name w then 2 else 3)"
    by simp
next
  assume n: "\<not> ok (CheckInitialized e (common ws))"
  then show "DoInit e cref tensor tname on_complete ws
          = (Some (Thrown (reason (CheckInitialized e (common ws)))), ws)"
    by (simp add: DoInit_def ThrowIfError_error)
  from n show "DoFirstStage e cref tensor tname version prio on_complete ws
          = (Some (Thrown (reason (CheckInitialized e (common ws)))), ws)"
    by (simp add: DoFirstStage_def ThrowIfError_error)
  from n show "DoSecondStage e cref tensor tname version prio on_complete ws
          = (Some (Thrown (reason (CheckInitialized e (common ws)))), ws)"
    by (simp add: DoSecondStage_def ThrowIfError_error)
qed

theorem runtime_checked_inside_stages_witness:
  "DoInit (deployment (Error ''BytePS has not been initialized'') False Ok) 8 7 ''byteps.g''
       (engine_on_complete 0) (staged True)
     = (Some (Thrown ''BytePS has not been initialized''), staged True)
   \<and> DoFirstStage (deployment (Error ''BytePS has not been initialized'') False Ok) 8 7 ''byteps.g'' 0 0
       (engine_on_complete 0) (staged True)
     = (Some (Thrown ''BytePS has not been initialized''), staged True)
   \<and> DoSecondStage (deployment (Error ''BytePS has not been initialized'') False Ok) 8 7 ''byteps.g'' 0 0
       (engine_on_complete 0) (staged True)
     = (Some (Thrown ''BytePS has not been initialized''), staged True)
   \<and> length (submitted 0 (snd (byteps_mxnet_push_pull_async
         (deployment (Error ''BytePS has not been initialized'') False Ok) 7 (Some ''g'') 0 0 (staged True))))
     = 3"
proof -
  let ?e = "deployment (Error ''BytePS has not been initialized'') False Ok"
  have n: "\<not> ok (CheckInitialized ?e (common (staged True)))"
    and r: "reason (CheckInitialized ?e (common (staged True))) = ''BytePS has not been initialized''"
    by (simp_all add: deployment_def)
  have a: "\<not> already_initialized ?e 7 (Some ''g'') (staged True)"
    by (simp add: already_initialized_def deployment_def)
  have q: "length (engine_queue (staged True)) = 0"
    by (simp add: staged_def)
  from runtime_checked_inside_stages [where e = "?e" and chk = "CheckInitialized ?e"
      and tensor = 7 and name = "Some ''g''" and version = 0 and prio = 0 and w = "staged True"
      and ws = "staged True" and cref = 8 and tname = "''byteps.g''"
      and on_complete = "engine_on_complete 0"] n r a q
  show ?thesis by simp
qed

text \<open>
  C2 as the spec states it fails: with a runtime that is not initialized the entry point
  still submits the initialization, the push stage and the pull stage.
\<close>

theorem submits_without_runtime:
  "\<not> ok (CheckInitialized (deployment (Error ''BytePS has not been initialized'') False Ok)
          (common (staged True)))
   \<and> engine_queue (staged True) = []
   \<and> map (\<lambda>x. stage_of (exec_fun x))
       (engine_queue (snd (byteps_mxnet_push_pull_async
          (deployment (Error ''BytePS has not been initialized'') False Ok) 7 (Some ''g'') 0 0 (staged True))))
     = [Initializer, PushStage, PullStage]"
  by (simp add: byteps_mxnet_push_pull_async_def deployment_def staged_def GetOpName_Some
      PushAsync_def div_assign_def)

text \<open>
  C1, as the code has it. Take a push stage that runs with the runtime initialized and
  the staging check passed. When the common layer reports \<open>Error r\<close> through the callback
  it was given, whatever status it returns, the engine's callback is called once, with a
  \<open>dmlc::Error\<close> carrying \<open>r\<close>, and the stage does not touch the tensor. When the common
  layer reports the error only as the status it returns, \<open>ThrowIfError\<close> throws \<open>r\<close> and
  the stage does not call the engine's callback. The entry point issues the division by
  the worker count (line 154) and submits the pull stage in every call, before the push
  has run: neither depends on how the push ends, and once the division takes effect the
  tensor is scaled.
\<close>

theorem push_error_and_scaling:
  assumes init: "ok (CheckInitialized e (common ws))"
    and staging: "GetDevice e input = CPU_DEVICE_ID e \<or> cpubuff (contexts (common ws) cref) \<noteq> None"
  shows "((\<forall>cb. EnqueueTensorPush e cref input None tname (GetDevice e input) prio version cb PUSH ws
                = (ret, cb (Error r) (g ws))) \<longrightarrow>
            DoFirstStage e cref input tname version prio on_complete ws
              = (ThrowIfError ret, on_complete (Some (dmlc_Error r)) (g ws))
          \<and> completions (snd (DoFirstStage e cref input tname version prio (engine_on_complete i) ws))
              = completions (g ws) @ [(i, Some (dmlc_Error r))]
          \<and> tensor_data (snd (DoFirstStage e cref input tname version prio (engine_on_complete i) ws))
              = tensor_data (g ws))
       \<and> ((\<forall>cb. EnqueueTensorPush e cref input None tname (GetDevice e input) prio version cb PUSH ws
                = (Error r, g ws)) \<longrightarrow>
            DoFirstStage e cref input tname version prio on_complete ws = (Some (Thrown r), g ws))
       \<and> scalings (snd (byteps_mxnet_push_pull_async e tensor name version prio w))
           = scalings w @ [(tensor, NumWorkers e)]
       \<and> (scalings w = [] \<longrightarrow>
            tensor_data (scalings_take_effect (snd (byteps_mxnet_push_pull_async e tensor name version prio w))) tensor
              = map (\<lambda>x. div_elem x (NumWorkers e)) (tensor_data w tensor))
       \<and> list_ex (\<lambda>x. stage_of (exec_fun x) = PullStage)
           (submitted (length (engine_queue w))
              (snd (byteps_mxnet_push_pull_async e tensor name version prio w)))"
proof -
  have a: "DoFirstStage e cref input tname version prio cb ws
             = (ThrowIfError ret, cb (Some (dmlc_Error r)) (g ws))"
    if "\<forall>cb. EnqueueTensorPush e cref input None tname (GetDevice e input) prio version cb PUSH ws
                = (ret, cb (Error r) (g ws))" for cb
    using init staging that
    by (auto simp add: DoFirstStage_def ThrowIfError_ok InvokeCompleteCallback_def Let_def)
  have b: "DoFirstStage e cref input tname version prio on_complete ws = (Some (Thrown r), g ws)"
    if "\<forall>cb. EnqueueTensorPush e cref input None tname (GetDevice e input) prio version cb PUSH ws
                = (Error r, g ws)"
    using init staging that
    by (auto simp add: DoFirstStage_def ThrowIfError_ok ThrowIfError_error Let_def)
  have p: "list_ex (\<lambda>x. stage_of (exec_fun x) = PullStage)
           (submitted (length (engine_queue w))
              (snd (byteps_mxnet_push_pull_async e tensor name version prio w)))"
    by (simp add: byteps_mxnet_push_pull_async_def PushAsync_def div_assign_def Let_def
        submitted_def split: prod.splits)
  have t: "tensor_data (scalings_take_effect (snd (byteps_mxnet_push_pull_async e tensor name version prio w))) tensor
              = map (\<lambda>x. div_elem x (NumWorkers e)) (tensor_data w tensor)"
    if "scalings w = []"
    using that by (simp add: scalings_take_effect_def entry_scalings entry_tensor_data scale_def)
  show ?thesis
    using a b t by (simp add: p entry_scalings engine_on_complete_def)
qed

theorem push_error_and_scaling_witness:
  "DoFirstStage (deployment Ok True (Error ''push failed'')) 8 7 ''byteps.g'' 0 0 (engine_on_complete 0) (staged True)
     = (None, engine_on_complete 0 (Some (dmlc_Error ''push failed''))
          (log_request \<lparr>req_queue = PUSH, req_context = 8, req_input = 7, req_output = None,
             req_name = ''byteps.g'', req_device = 0, req_priority = 0, req_version = 0\<rparr> (staged True)))
   \<and> completions (snd (DoFirstStage (deployment Ok True (Error ''push failed'')) 8 7 ''byteps.g'' 0 0
        (engine_on_complete 0) (staged True)))
     = [(0, Some (dmlc_Error ''push failed''))]
   \<and> DoFirstStage ((deployment Ok True Ok)\<lparr>EnqueueTensorPush := refusing (Error ''push failed'')\<rparr>)
        8 7 ''byteps.g'' 0 0 (engine_on_complete 0) (staged True)
     = (Some (Thrown ''push failed''),
        log_request \<lparr>req_queue = PUSH, req_context = 8, req_input = 7, req_output = None,
           req_name = ''byteps.g'', req_device = 0, req_priority = 0, req_version = 0\<rparr> (staged True))
   \<and> tensor_data (scalings_take_effect (snd (byteps_mxnet_push_pull_async
        (deployment Ok True (Error ''push failed'')) 7 (Some ''g'') 0 0 (staged True)))) 7
     = [Finite 1, Finite 2]"
proof -
  let ?e = "deployment Ok True (Error ''push failed'')"
  let ?f = "(deployment Ok True Ok)\<lparr>EnqueueTensorPush := refusing (Error ''push failed'')\<rparr>"
  let ?g = "log_request \<lparr>req_queue = PUSH, req_context = 8, req_input = 7, req_output = None,
             req_name = ''byteps.g'', req_device = 0, req_priority = 0, req_version = 0\<rparr>"
  have init: "ok (CheckInitialized ?e (common (staged True)))"
    and init2: "ok (CheckInitialized ?f (common (staged True)))"
    by (simp_all add: deployment_def)
  have staging: "GetDevice ?e 7 = CPU_DEVICE_ID ?e \<or> cpubuff (contexts (common (staged True)) 8) \<noteq> None"
    and staging2: "GetDevice ?f 7 = CPU_DEVICE_ID ?f \<or> cpubuff (contexts (common (staged True)) 8) \<noteq> None"
    by (simp_all add: staged_def)
  have svc: "\<forall>cb. EnqueueTensorPush ?e 8 7 None ''byteps.g'' (GetDevice ?e 7) 0 0 cb PUSH (staged True)
                = (Ok, cb (Error ''push failed'') (?g (staged True)))"
    by (simp add: deployment_def answering_def)
  have svc2: "\<forall>cb. EnqueueTensorPush ?f 8 7 None ''byteps.g'' (GetDevice ?f 7) 0 0 cb PUSH (staged True)
                = (Error ''push failed'', ?g (staged True))"
    by (simp add: deployment_def refusing_def)
  have c: "completions (?g (staged True)) = []"
    and t: "tensor_data (staged True) 7 = [Finite 2, Finite 4]"
    and n: "NumWorkers ?e = 2"
    and s: "scalings (staged True) = []"
    by (simp_all add: log_request_def staged_def deployment_def)
  note called = push_error_and_scaling [where e = "?e" and ws = "staged True" and input = 7 and cref = 8
      and tname = "''byteps.g''" and prio = 0 and version = 0 and r = "''push failed''" and g = "?g"
      and ret = Ok and on_complete = "engine_on_complete 0" and i = 0 and tensor = 7
      and name = "Some ''g''" and w = "staged True", OF init staging]
  note returned = push_error_and_scaling [where e = "?f" and ws = "staged True" and input = 7 and cref = 8
      and tname = "''byteps.g''" and prio = 0 and version = 0 and r = "''push failed''" and g = "?g"
      and ret = Ok and on_complete = "engine_on_complete 0" and i = 0 and tensor = 7
      and name = "Some ''g''" and w = "staged True", OF init2 staging2]
  from called svc c t n s returned svc2
  show ?thesis by (simp add: engine_on_complete_def ThrowIfError_def)
qed

text \<open>
  C1 as the spec states it fails, in both of its parts. First, a push that the common
  layer answers with an error: the caller's callback gets exactly that error, the pull
  stage runs all the same, and when the division takes effect after the callback of the
  pull, as the spec has it, the tensor that held \<open>[2, 4]\<close> holds \<open>[1, 2]\<close>; it holds the
  same if the division takes effect at once, before the push runs. Second, a push that
  the common layer refuses by the status it returns: the stage throws and the completion
  callback is never called.
\<close>

theorem push_error_tensor_scaled:
  "(let e = deployment Ok True (Error ''push failed'');
        w1 = snd (byteps_mxnet_push_pull_async e 7 (Some ''g'') 0 0 (staged True));
        push = run_opr e 0 w1;
        pull = run_opr e 1 (snd push);
        at_once = run_opr e 0 (scalings_take_effect w1);
        f = (deployment Ok True Ok)\<lparr>EnqueueTensorPush := refusing (Error ''push failed'')\<rparr>;
        refused = run_opr f 0 (snd (byteps_mxnet_push_pull_async f 7 (Some ''g'') 0 0 (staged True)))
    in tensor_data (staged True) 7 = [Finite 2, Finite 4]
       \<and> map (\<lambda>x. stage_of (exec_fun x)) (engine_queue w1) = [PushStage, PullStage]
       \<and> fst push = None
       \<and> completions (snd push) = [(0, Some (dmlc_Error ''push failed''))]
       \<and> tensor_data (snd push) 7 = [Finite 2, Finite 4]
       \<and> fst pull = None
       \<and> completions (snd pull) = [(0, Some (dmlc_Error ''push failed'')), (1, None)]
       \<and> tensor_data (scalings_take_effect (snd pull)) 7 = [Finite 1, Finite 2]
       \<and> completions (snd at_once) = [(0, Some (dmlc_Error ''push failed''))]
       \<and> tensor_data (snd at_once) 7 = [Finite 1, Finite 2]
       \<and> fst refused = Some (Thrown ''push failed'')
       \<and> completions (snd refused) = [])"
  by (simp add: byteps_mxnet_push_pull_async_def deployment_def staged_def GetOpName_Some PushAsync_def
      div_assign_def run_opr_def DoFirstStage_def DoSecondStage_def ThrowIfError_def answering_def
      refusing_def log_request_def InvokeCompleteCallback_def engine_on_complete_def Let_def
      scalings_take_effect_def scale_def)

subsection \<open>The order of the stages\<close>

lemma engine_event_length: "engine_event q ev ph = Some ph1 \<Longrightarrow> length ph1 = length ph"
  by (cases ev) (auto split: if_splits)

lemma engine_event_order:
  assumes ev: "engine_event q ev ph = Some ph1"
    and ji: "j < i" and c: "conflicts (q ! j) (q ! i)"
    and inv: "ph ! i \<noteq> Pending \<longrightarrow> ph ! j = Done"
  shows "ph1 ! i \<noteq> Pending \<longrightarrow> ph1 ! j = Done"
proof (cases ev)
  case (Start k)
  with ev have ms: "may_start q ph k" and ph1: "ph1 = ph[k := Running]"
    by (auto split: if_splits)
  from ms have k: "k < length ph" and pk: "ph ! k = Pending"
    and all: "\<forall>m<k. conflicts (q ! m) (q ! k) \<longrightarrow> ph ! m = Done"
    by (auto simp: may_start_def list_all_iff)
  show ?thesis
  proof (cases "k = i")
    case True
    with all ji c have "ph ! j = Done" by blast
    moreover from ji True have "j \<noteq> k" by simp
    ultimately show ?thesis by (simp add: ph1)
  next
    case False
    show ?thesis
    proof (cases "k = j")
      case True
      with pk inv have "ph ! i = Pending" by auto
      with False show ?thesis by (simp add: ph1)
    next
      case False
      with \<open>k \<noteq> i\<close> inv show ?thesis by (simp add: ph1)
    qed
  qed
next
  case (Finish k)
  with ev have k: "k < length ph" and pk: "ph ! k = Running" and ph1: "ph1 = ph[k := Done]"
    by (auto split: if_splits)
  show ?thesis
  proof (cases "k = j")
    case True
    with k show ?thesis by (simp add: ph1)
  next
    case False
    show ?thesis
    proof (cases "k = i")
      case True
      with pk inv have "ph ! j = Done" by auto
      with False show ?thesis by (simp add: ph1)
    next
      case False
      with \<open>k \<noteq> j\<close> inv show ?thesis by (simp add: ph1)
    qed
  qed
qed

lemma engine_run_order:
  "engine_run q evs ph = Some ph1 \<Longrightarrow> j < i \<Longrightarrow> conflicts (q ! j) (q ! i) \<Longrightarrow>
   (ph ! i \<noteq> Pending \<longrightarrow> ph ! j = Done) \<Longrightarrow> ph1 ! i \<noteq> Pending \<longrightarrow> ph1 ! j = Done"
proof (induction evs arbitrary: ph)
  case Nil
  then show ?case by simp
next
  case (Cons ev evs)
  from Cons.prems(1) obtain ph2 where e: "engine_event q ev ph = Some ph2"
    and r: "engine_run q evs ph2 = Some ph1"
    by (auto split: option.splits)
  from engine_event_order [OF e Cons.prems(2) Cons.prems(3) Cons.prems(4)]
  have "ph2 ! i \<noteq> Pending \<longrightarrow> ph2 ! j = Done" .
  from Cons.IH [OF r Cons.prems(2) Cons.prems(3) this] show ?case .
qed

lemma entry_queue_split:
  "engine_queue (snd (byteps_mxnet_push_pull_async e tensor name version prio w))
   = engine_queue w
     @ submitted (length (engine_queue w)) (snd (byteps_mxnet_push_pull_async e tensor name version prio w))"
  using entry_old_queue [of w e tensor name version prio]
    append_take_drop_id [of "length (engine_queue w)"
      "engine_queue (snd (byteps_mxnet_push_pull_async e tensor name version prio w))"]
  by (simp add: submitted_def)

lemma entry_queue_shape:
  "\<exists>init push pull.
     engine_queue (snd (byteps_mxnet_push_pull_async e tensor name version prio w))
       = engine_queue w @ (if already_initialized e tensor name w then [] else [init]) @ [push, pull]
     \<and> declared init = (Initializer, [], [var e tensor])
     \<and> declared push = (PushStage, [var e tensor], [])
     \<and> declared pull = (PullStage, [], [var e tensor])"
proof -
  let ?new = "submitted (length (engine_queue w))
                (snd (byteps_mxnet_push_pull_async e tensor name version prio w))"
  have m: "map declared ?new
        = (if already_initialized e tensor name w then [] else [(Initializer, [], [var e tensor])])
          @ [(PushStage, [var e tensor], []), (PullStage, [], [var e tensor])]"
    by (rule entry_submitted)
  show ?thesis
  proof (cases "already_initialized e tensor name w")
    case True
    with m obtain push pull where "?new = [push, pull]"
      "declared push = (PushStage, [var e tensor], [])"
      "declared pull = (PullStage, [], [var e tensor])"
      by (auto simp: map_eq_Cons_conv)
    moreover have "declared \<lparr>exec_fun = init_async_fn 0 tensor [], exec_ctx = 0, const_vars = [],
        mutable_vars = [var e tensor], fn_prop = kNormal, priority = 0, opr_name = []\<rparr>
        = (Initializer, [], [var e tensor])"
      by (simp add: declared_def)
    ultimately show ?thesis
      using True entry_queue_split [of e tensor name version prio w] by auto
  next
    case False
    with m obtain init push pull where "?new = [init, push, pull]"
      "declared init = (Initializer, [], [var e tensor])"
      "declared push = (PushStage, [var e tensor], [])"
      "declared pull = (PullStage, [], [var e tensor])"
      by (auto simp: map_eq_Cons_conv)
    then show ?thesis
      using False entry_queue_split [of e tensor name version prio w] by auto
  qed
qed

lemma conflicts_read_then_write:
  "declared a = (s, [v], []) \<Longrightarrow> declared b = (t, [], [v]) \<Longrightarrow> conflicts a b"
  by (simp add: declared_def conflicts_def)

lemma conflicts_write_then_read:
  "declared a = (s, [], [v]) \<Longrightarrow> declared b = (t, [v], []) \<Longrightarrow> conflicts a b"
  by (simp add: declared_def conflicts_def)

text \<open>
  C9, as the code has it. The order is enforced through the tensor's engine variable, and
  so within one call of the entry point. Take the queue after one call and any run of the
  engine that starts with the operations of this call pending (the operations submitted
  before may be in any phase). At every point of the run: if the pull stage has started,
  the push stage is done; and, when the call submitted the initialization, if the push
  stage has started, the initialization is done.
\<close>

theorem init_push_pull_order:
  assumes run: "engine_run (engine_queue (snd (byteps_mxnet_push_pull_async e tensor name version prio w))) events ph0 = Some ph"
    and old: "length old = length (engine_queue w)"
    and fresh: "ph0 = old @ replicate (length (submitted (length (engine_queue w))
                  (snd (byteps_mxnet_push_pull_async e tensor name version prio w)))) Pending"
  shows "(let q = engine_queue (snd (byteps_mxnet_push_pull_async e tensor name version prio w));
              k = length q
          in stage_of (exec_fun (q ! (k - 1))) = PullStage
           \<and> stage_of (exec_fun (q ! (k - 2))) = PushStage
           \<and> (ph ! (k - 1) \<noteq> Pending \<longrightarrow> ph ! (k - 2) = Done)
           \<and> (\<not> already_initialized e tensor name w \<longrightarrow>
                stage_of (exec_fun (q ! (k - 3))) = Initializer
                \<and> (ph ! (k - 2) \<noteq> Pending \<longrightarrow> ph ! (k - 3) = Done)))"
proof -
  let ?q = "engine_queue (snd (byteps_mxnet_push_pull_async e tensor name version prio w))"
  let ?n = "length (engine_queue w)"
  obtain init push pull where
    q: "?q = engine_queue w @ (if already_initialized e tensor name w then [] else [init]) @ [push, pull]"
    and di: "declared init = (Initializer, [], [var e tensor])"
    and dp: "declared push = (PushStage, [var e tensor], [])"
    and dl: "declared pull = (PullStage, [], [var e tensor])"
    using entry_queue_shape [of e tensor name version prio w] by blast
  have sub: "submitted ?n (snd (byteps_mxnet_push_pull_async e tensor name version prio w))
      = (if already_initialized e tensor name w then [] else [init]) @ [push, pull]"
    using q by (simp add: submitted_def)
  show ?thesis
  proof (cases "already_initialized e tensor name w")
    case True
    with q have q2: "?q = engine_queue w @ [push, pull]" by simp
    then have k: "length ?q = ?n + 2" by simp
    have pl: "?q ! (?n + 1) = pull" and ps: "?q ! ?n = push"
      by (simp_all add: q2 nth_append)
    have c: "conflicts (?q ! ?n) (?q ! (?n + 1))"
      unfolding pl ps by (rule conflicts_read_then_write [OF dp dl])
    have p0: "ph0 ! (?n + 1) \<noteq> Pending \<longrightarrow> ph0 ! ?n = Done"
      using fresh old sub True by (simp add: nth_append)
    have "ph ! (?n + 1) \<noteq> Pending \<longrightarrow> ph ! ?n = Done"
      by (rule engine_run_order [OF run _ c p0]) simp
    with True k pl ps dp dl show ?thesis
      by (simp add: Let_def declared_def)
  next
    case False
    with q have q3: "?q = engine_queue w @ [init, push, pull]" by simp
    then have k: "length ?q = ?n + 3" by simp
    have pl: "?q ! (?n + 2) = pull" and ps: "?q ! (?n + 1) = push" and it: "?q ! ?n = init"
      by (simp_all add: q3 nth_append)
    have c1: "conflicts (?q ! (?n + 1)) (?q ! (?n + 2))"
      unfolding pl ps by (rule conflicts_read_then_write [OF dp dl])
    have c0: "conflicts (?q ! ?n) (?q ! (?n + 1))"
      unfolding it ps by (rule conflicts_write_then_read [OF di dp])
    have p1: "ph0 ! (?n + 2) \<noteq> Pending \<longrightarrow> ph0 ! (?n + 1) = Done"
      and p0: "ph0 ! (?n + 1) \<noteq> Pending \<longrightarrow> ph0 ! ?n = Done"
      using fresh old sub False by (simp_all add: nth_append)
    have "ph ! (?n + 2) \<noteq> Pending \<longrightarrow> ph ! (?n + 1) = Done"
      by (rule engine_run_order [OF run _ c1 p1]) simp
    moreover have "ph ! (?n + 1) \<noteq> Pending \<longrightarrow> ph ! ?n = Done"
      by (rule engine_run_order [OF run _ c0 p0]) simp
    ultimately show ?thesis
      using False k pl ps it di dp dl by (simp add: Let_def declared_def)
  qed
qed

theorem init_push_pull_order_witness:
  "engine_run (engine_queue (snd (byteps_mxnet_push_pull_async (deployment Ok False Ok) 7 None 0 0 (staged True))))
      [Start 0, Finish 0, Start 1, Finish 1, Start 2] [Pending, Pending, Pending]
     = Some [Done, Done, Running]
   \<and> map (\<lambda>x. stage_of (exec_fun x))
       (engine_queue (snd (byteps_mxnet_push_pull_async (deployment Ok False Ok) 7 None 0 0 (staged True))))
     = [Initializer, PushStage, PullStage]
   \<and> engine_run (engine_queue (snd (byteps_mxnet_push_pull_async (deployment Ok False Ok) 7 None 0 0 (staged True))))
      [Start 0, Start 1] [Pending, Pending, Pending]
     = None"
proof -
  let ?w = "snd (byteps_mxnet_push_pull_async (deployment Ok False Ok) 7 None 0 0 (staged True))"
  have q: "engine_queue ?w =
     [\<lparr>exec_fun = init_async_fn 15 7 ''byteps.noname.1'', exec_ctx = 0, const_vars = [],
        mutable_vars = [7], fn_prop = kNormal, priority = 0, opr_name = ''BytePSInit''\<rparr>,
      \<lparr>exec_fun = first_stage_async_fn 15 7 ''byteps.noname.1'' 0 0, exec_ctx = 0, const_vars = [7],
        mutable_vars = [], fn_prop = kNormal, priority = 0, opr_name = ''BytePSFirstStage''\<rparr>,
      \<lparr>exec_fun = second_stage_async_fn 15 7 ''byteps.noname.1'' 0 0, exec_ctx = 0, const_vars = [],
        mutable_vars = [7], fn_prop = kNormal, priority = 0, opr_name = ''BytePSSecondStage''\<rparr>]"
    by (simp add: byteps_mxnet_push_pull_async_def deployment_def staged_def GetOpName_None
        PushAsync_def div_assign_def initial_op_count_def to_string_def dec_digits_small digit_char_def)
  have run: "engine_run (engine_queue ?w) [Start 0, Finish 0, Start 1, Finish 1, Start 2]
      [Pending, Pending, Pending] = Some [Done, Done, Running]"
    by (simp add: q may_start_def conflicts_def upt_conv_Cons)
  have refused: "engine_run (engine_queue ?w) [Start 0, Start 1] [Pending, Pending, Pending] = None"
    by (simp add: q may_start_def conflicts_def upt_conv_Cons)
  have old: "length ([] :: phase list) = length (engine_queue (staged True))"
    by (simp add: staged_def)
  have fresh: "[Pending, Pending, Pending]
      = [] @ replicate (length (submitted (length (engine_queue (staged True))) ?w)) Pending"
  proof -
    have "length (engine_queue (staged True)) = 0" by (simp add: staged_def)
    then show ?thesis by (simp add: submitted_def q numeral_3_eq_3)
  qed
  note init_push_pull_order [OF run old fresh]
  with run refused show ?thesis
    by (simp add: q)
qed

text \<open>
  C9 as the spec states it, for the same tensor name, fails: the dependencies are declared
  on \<open>tensor->var()\<close>, while the context is found by name. Two calls use the name \<open>g\<close>, the
  first on the handle 7 and the second on the handle 9. When the registry answers the
  second call that the name is initialized, the second call's push stage may start while
  the only initialization of the name is still pending, and it then stops at the fatal
  staging check. When the registry answers false to both calls, the second call's pull
  stage may start while the first call's initialization and push stage for the same name
  are still pending.
\<close>

theorem same_name_other_handle_unordered:
  "(let e1 = deployment Ok False Ok;
        e2 = deployment Ok True Ok;
        w1 = snd (byteps_mxnet_push_pull_async e1 7 (Some ''g'') 0 0 (staged False));
        w2 = snd (byteps_mxnet_push_pull_async e2 9 (Some ''g'') 0 0 w1);
        w3 = snd (byteps_mxnet_push_pull_async e1 9 (Some ''g'') 0 0 w1)
    in map (\<lambda>x. (stage_of (exec_fun x), tensor_name_of (exec_fun x))) (engine_queue w2)
         = [(Initializer, ''byteps.g''), (PushStage, ''byteps.g''), (PullStage, ''byteps.g''),
            (PushStage, ''byteps.g''), (PullStage, ''byteps.g'')]
       \<and> engine_run (engine_queue w2) [Start 3] [Pending, Pending, Pending, Pending, Pending]
         = Some [Pending, Pending, Pending, Running, Pending]
       \<and> fst (run_opr e2 3 w2) = Some (CheckFailed ''byteps.g: cpu buffer not initialized.'')
       \<and> map (\<lambda>x. (stage_of (exec_fun x), tensor_name_of (exec_fun x))) (engine_queue w3)
         = [(Initializer, ''byteps.g''), (PushStage, ''byteps.g''), (PullStage, ''byteps.g''),
            (Initializer, ''byteps.g''), (PushStage, ''byteps.g''), (PullStage, ''byteps.g'')]
       \<and> engine_run (engine_queue w3) [Start 3, Finish 3, Start 4, Finish 4, Start 5]
            [Pending, Pending, Pending, Pending, Pending, Pending]
         = Some [Pending, Pending, Pending, Done, Done, Running])"
proof -
  let ?e1 = "deployment Ok False Ok"
  let ?e2 = "deployment Ok True Ok"
  let ?w1 = "snd (byteps_mxnet_push_pull_async ?e1 7 (Some ''g'') 0 0 (staged False))"
  let ?w2 = "snd (byteps_mxnet_push_pull_async ?e2 9 (Some ''g'') 0 0 ?w1)"
  let ?w3 = "snd (byteps_mxnet_push_pull_async ?e1 9 (Some ''g'') 0 0 ?w1)"
  let ?op = "\<lambda>f cv mv nm. \<lparr>exec_fun = f, exec_ctx = 0, const_vars = cv, mutable_vars = mv,
                fn_prop = kNormal, priority = 0, opr_name = nm\<rparr>"
  let ?first = "[?op (init_async_fn 8 7 ''byteps.g'') [] [7] ''BytePSInit'',
                 ?op (first_stage_async_fn 8 7 ''byteps.g'' 0 0) [7] [] ''BytePSFirstStage'',
                 ?op (second_stage_async_fn 8 7 ''byteps.g'' 0 0) [] [7] ''BytePSSecondStage'']"
  have q2: "engine_queue ?w2 = ?first @
      [?op (first_stage_async_fn 8 9 ''byteps.g'' 0 0) [9] [] ''BytePSFirstStage'',
       ?op (second_stage_async_fn 8 9 ''byteps.g'' 0 0) [] [9] ''BytePSSecondStage'']"
    by (simp add: byteps_mxnet_push_pull_async_def deployment_def staged_def GetOpName_Some
        PushAsync_def div_assign_def)
  have q3: "engine_queue ?w3 = ?first @
      [?op (init_async_fn 8 9 ''byteps.g'') [] [9] ''BytePSInit'',
       ?op (first_stage_async_fn 8 9 ''byteps.g'' 0 0) [9] [] ''BytePSFirstStage'',
       ?op (second_stage_async_fn 8 9 ''byteps.g'' 0 0) [] [9] ''BytePSSecondStage'']"
    by (simp add: byteps_mxnet_push_pull_async_def deployment_def staged_def GetOpName_Some
        PushAsync_def div_assign_def)
  have r2: "engine_run (engine_queue ?w2) [Start 3] [Pending, Pending, Pending, Pending, Pending]
         = Some [Pending, Pending, Pending, Running, Pending]"
    by (simp add: q2 may_start_def conflicts_def upt_conv_Cons)
  have r3: "engine_run (engine_queue ?w3) [Start 3, Finish 3, Start 4, Finish 4, Start 5]
            [Pending, Pending, Pending, Pending, Pending, Pending]
         = Some [Pending, Pending, Pending, Done, Done, Running]"
    by (simp add: q3 may_start_def conflicts_def upt_conv_Cons)
  have c: "cpubuff (contexts (common ?w2) 8) = None"
    by (simp add: byteps_mxnet_push_pull_async_def deployment_def staged_def GetOpName_Some
        PushAsync_def div_assign_def)
  have x: "exec_fun (engine_queue ?w2 ! 3) = first_stage_async_fn 8 9 ''byteps.g'' 0 0"
    by (simp add: q2)
  have k: "ThrowIfError (CheckInitialized ?e2 (common ?w2)) = None"
    and d: "GetDevice ?e2 9 \<noteq> CPU_DEVICE_ID ?e2"
    by (simp_all add: deployment_def ThrowIfError_def)
  have f: "fst (run_opr ?e2 3 ?w2) = Some (CheckFailed ''byteps.g: cpu buffer not initialized.'')"
    by (simp add: run_opr_def x DoFirstStage_def k d c)
  show ?thesis
    unfolding Let_def using r2 r3 f by (simp add: q2 q3)
qed

end
